theory Spec2Isabelle
  imports Main "HOL-Library.AList"
begin

section \<open>Chat messages\<close>

text \<open>
  A history entry is one of the dictionaries that \<open>memory_node\<close> appends:
  \<^verbatim>\<open>{'type': ..., 'content': ..., 'query_type': ...}\<close> for the user and
  \<^verbatim>\<open>{'type': ..., 'content': ...}\<close> for the assistant. The key that the assistant
  entry lacks is \<open>None\<close> here.
\<close>

record message =
  msg_type :: string
  content :: string
  msg_query_type :: "string option"

section \<open>The session cache (services/cache\_service.py)\<close>

text \<open>
  \<open>CacheService._session_cache\<close> is a Python dictionary from session identifiers to
  \<^verbatim>\<open>{'history': ..., 'timestamp': ...}\<close>. A Python dictionary keeps insertion order and
  \<open>len\<close> counts its entries, so it is an association list here; a dictionary never holds
  a key twice, which is the invariant \<open>dict_inv\<close>. The wall clock \<open>datetime.now()\<close>
  is the explicit argument \<open>now\<close>, an instant in microseconds (the resolution of
  \<open>datetime\<close>). Every operation returns its result together with the updated cache.
\<close>

record session_data =
  history :: "message list"
  timestamp :: int

type_synonym session_cache = "(string \<times> session_data) list"

definition dict_inv :: "session_cache \<Rightarrow> bool" where
  "dict_inv c = distinct (map fst c)"

definition CACHE_EXPIRATION_MINUTES :: int where
  "CACHE_EXPIRATION_MINUTES = 60"

definition timedelta_minutes :: "int \<Rightarrow> int" where
  \<comment> \<open>\<open>timedelta(minutes=m)\<close> in microseconds\<close>
  "timedelta_minutes m = m * 60000000"

definition is_expired :: "int \<Rightarrow> int \<Rightarrow> bool" where
  "is_expired now ts =
     (let expiration_time = timedelta_minutes CACHE_EXPIRATION_MINUTES
      in now - ts > expiration_time)"

definition clear_session :: "string \<Rightarrow> session_cache \<Rightarrow> bool \<times> session_cache" where
  "clear_session sid c =
     (if sid \<in> set (map fst c) then (True, AList.delete sid c) else (False, c))"

definition get_session_history ::
  "int \<Rightarrow> string \<Rightarrow> session_cache \<Rightarrow> message list \<times> session_cache" where
  "get_session_history now sid c =
     (case map_of c sid of
        None \<Rightarrow> ([], c)
      | Some d \<Rightarrow>
          if is_expired now (timestamp d) then ([], snd (clear_session sid c))
          else (history d, c))"

definition save_session_history ::
  "int \<Rightarrow> string \<Rightarrow> message list \<Rightarrow> session_cache \<Rightarrow> session_cache" where
  "save_session_history now sid h c =
     AList.update sid \<lparr>history = h, timestamp = now\<rparr> c"

definition clear_all_sessions :: "session_cache \<Rightarrow> nat \<times> session_cache" where
  "clear_all_sessions c = (length c, [])"

definition cleanup_expired_sessions :: "int \<Rightarrow> session_cache \<Rightarrow> nat \<times> session_cache" where
  \<comment> \<open>the source reads the clock once per entry; the sweep is taken at one instant here\<close>
  "cleanup_expired_sessions now c =
     (let expired_sessions = map fst (filter (\<lambda>(sid, d). is_expired now (timestamp d)) c)
      in (length expired_sessions,
          fold (\<lambda>sid c'. snd (clear_session sid c')) expired_sessions c))"

definition get_session_count :: "session_cache \<Rightarrow> nat" where
  "get_session_count c = length c"

definition session_exists :: "int \<Rightarrow> string \<Rightarrow> session_cache \<Rightarrow> bool" where
  "session_exists now sid c =
     (case map_of c sid of
        None \<Rightarrow> False
      | Some d \<Rightarrow> \<not> is_expired now (timestamp d))"

section \<open>Python strings\<close>

text \<open>
  A Python \<open>str\<close> is a sequence of code points and \<open>len\<close> counts them. A \<open>string\<close> here
  is a list of \<open>char\<close>, each read as one code point below 256; the character classes
  are those of Python on that range: \<open>str.isspace\<close> (also the class \<^verbatim>\<open>\s\<close> of
  \<open>re\<close> and what \<open>str.strip\<close> removes), the decimal digits \<^verbatim>\<open>\d\<close>, the word
  characters \<^verbatim>\<open>\w\<close> (\<open>str.isalnum\<close> or an underscore) and \<open>str.lower\<close>.
\<close>

definition code_point :: "char \<Rightarrow> nat" where
  "code_point c = of_char c"

definition py_isspace :: "char \<Rightarrow> bool" where
  "py_isspace c =
     (let n = code_point c
      in (9 \<le> n \<and> n \<le> 13) \<or> (28 \<le> n \<and> n \<le> 32) \<or> n = 133 \<or> n = 160)"

definition is_digit :: "char \<Rightarrow> bool" where
  "is_digit c = (let n = code_point c in 48 \<le> n \<and> n \<le> 57)"

definition is_word_char :: "char \<Rightarrow> bool" where
  "is_word_char c =
     (let n = code_point c
      in (48 \<le> n \<and> n \<le> 57) \<or> (65 \<le> n \<and> n \<le> 90) \<or> n = 95 \<or> (97 \<le> n \<and> n \<le> 122)
         \<or> n = 170 \<or> n = 178 \<or> n = 179 \<or> n = 181 \<or> n = 185 \<or> n = 186
         \<or> (188 \<le> n \<and> n \<le> 190) \<or> (192 \<le> n \<and> n \<le> 214) \<or> (216 \<le> n \<and> n \<le> 246)
         \<or> 248 \<le> n)"

definition py_lower_char :: "char \<Rightarrow> char" where
  "py_lower_char c =
     (let n = code_point c
      in if (65 \<le> n \<and> n \<le> 90) \<or> (192 \<le> n \<and> n \<le> 222 \<and> n \<noteq> 215)
         then char_of (n + 32) else c)"

definition py_lower :: "string \<Rightarrow> string" where
  "py_lower s = map py_lower_char s"

definition py_strip :: "string \<Rightarrow> string" where
  "py_strip s = rev (dropWhile py_isspace (rev (dropWhile py_isspace s)))"

fun py_join :: "string \<Rightarrow> string list \<Rightarrow> string" where
  "py_join sep [] = []"
| "py_join sep [x] = x"
| "py_join sep (x # y # ys) = x @ sep @ py_join sep (y # ys)"

definition last_n :: "nat \<Rightarrow> 'a list \<Rightarrow> 'a list" where
  \<comment> \<open>the slice \<open>xs[-n:]\<close> for a positive \<open>n\<close>\<close>
  "last_n n xs = drop (length xs - n) xs"

definition newline :: char where
  "newline = CHR 0x0A"

text \<open>\<open>str\<close> of a Python integer: decimal digits, with a minus sign when negative.\<close>

function str_nat :: "nat \<Rightarrow> string" where
  "str_nat n = (if n < 10 then [char_of (48 + n)] else str_nat (n div 10) @ [char_of (48 + n mod 10)])"
  by pat_completeness auto
termination
  by (relation "measure id") auto

declare str_nat.simps [simp del]

definition str_int :: "int \<Rightarrow> string" where
  "str_int i = (if i < 0 then CHR ''-'' # str_nat (nat (- i)) else str_nat (nat i))"

section \<open>Regular expressions of the validators (utils/validators.py)\<close>

text \<open>
  Each pattern of the source is a matcher: given the character before a position (\<open>None\<close>
  at the start of the string) and the rest of the string from that position, it says
  whether the pattern matches there. \<open>re_search\<close> tries every position from left to
  right, as \<open>re.search\<close> does. In each pattern below the greedy repetitions are followed
  by a character outside the repeated class, so giving back characters never helps and
  the longest run decides.
\<close>

type_synonym matcher = "char option \<Rightarrow> string \<Rightarrow> bool"

fun re_search_from :: "matcher \<Rightarrow> char option \<Rightarrow> string \<Rightarrow> bool" where
  "re_search_from m prev [] = m prev []"
| "re_search_from m prev (c # cs) = (if m prev (c # cs) then True else re_search_from m (Some c) cs)"

definition re_search :: "matcher \<Rightarrow> string \<Rightarrow> bool" where
  "re_search m s = re_search_from m None s"

definition word_boundary :: "char option \<Rightarrow> string \<Rightarrow> bool" where
  \<comment> \<open>\<^verbatim>\<open>\b\<close>: exactly one of the two neighbours is a word character\<close>
  "word_boundary prev s =
     ((case prev of None \<Rightarrow> False | Some p \<Rightarrow> is_word_char p)
        \<noteq> (case s of [] \<Rightarrow> False | c # _ \<Rightarrow> is_word_char c))"

definition match_literal :: "string \<Rightarrow> matcher" where
  "match_literal lit prev s = (take (length lit) s = lit)"

definition match_word :: "string \<Rightarrow> matcher" where
  \<comment> \<open>\<^verbatim>\<open>\bLIT\b\<close> for a non-empty literal\<close>
  "match_word lit prev s =
     (word_boundary prev s \<and> take (length lit) s = lit
      \<and> word_boundary (Some (last lit)) (drop (length lit) s))"

definition match_math_operation :: matcher where
  \<comment> \<open>\<^verbatim>\<open>\d+\s*[\+\-\*\/\^\%\(\)]\s*\d+\<close>\<close>
  "match_math_operation prev s =
     (takeWhile is_digit s \<noteq> [] \<and>
      (case dropWhile py_isspace (dropWhile is_digit s) of
         [] \<Rightarrow> False
       | c # r \<Rightarrow> c \<in> set ''+-*/^%()'' \<and>
           (case dropWhile py_isspace r of [] \<Rightarrow> False | d # _ \<Rightarrow> is_digit d)))"

definition match_what_is_number :: matcher where
  \<comment> \<open>\<^verbatim>\<open>\bwhat is \d+\<close>\<close>
  "match_what_is_number prev s =
     (word_boundary prev s \<and> take 8 s = ''what is ''
      \<and> (case drop 8 s of [] \<Rightarrow> False | d # _ \<Rightarrow> is_digit d))"

definition calculation_indicators :: "matcher list" where
  "calculation_indicators =
     [match_math_operation,
      match_word ''calculate'',
      match_word ''compute'',
      match_word ''solve'',
      match_what_is_number,
      match_word ''math'',
      match_word ''sum of'',
      match_word ''product of'',
      match_word ''difference'',
      match_word ''quotient'']"

definition is_calculation_query :: "string \<Rightarrow> bool" where
  "is_calculation_query query =
     (let query_lower = py_lower query
      in list_ex (\<lambda>pattern. re_search pattern query_lower) calculation_indicators)"

fun lazy_any_then :: "string \<Rightarrow> string \<Rightarrow> bool" where
  \<comment> \<open>\<^verbatim>\<open>.*?LIT\<close>: the dot matches every character except a newline\<close>
  "lazy_any_then lit [] = (lit = [])"
| "lazy_any_then lit (c # cs) =
     (if take (length lit) (c # cs) = lit then True
      else c \<noteq> newline \<and> lazy_any_then lit cs)"

definition match_script_tag :: matcher where
  \<comment> \<open>\<^verbatim>\<open><script[^>]*>.*?</script>\<close>\<close>
  "match_script_tag prev s =
     (take 7 s = ''<script'' \<and>
      (case dropWhile (\<lambda>c. c \<noteq> CHR ''>'') (drop 7 s) of
         [] \<Rightarrow> False
       | g # r \<Rightarrow> lazy_any_then ''</script>'' r))"

definition match_event_handler :: matcher where
  \<comment> \<open>\<^verbatim>\<open>on\w+\s*=\<close>\<close>
  "match_event_handler prev s =
     (take 2 s = ''on'' \<and> takeWhile is_word_char (drop 2 s) \<noteq> [] \<and>
      (case dropWhile py_isspace (dropWhile is_word_char (drop 2 s)) of
         [] \<Rightarrow> False
       | c # _ \<Rightarrow> c = CHR ''=''))"

definition harmful_patterns :: "matcher list" where
  "harmful_patterns = [match_script_tag, match_literal ''javascript:'', match_event_handler]"

definition contains_harmful_content :: "string \<Rightarrow> bool" where
  \<comment> \<open>the string searched is already lower case, so \<open>re.IGNORECASE\<close> changes nothing\<close>
  "contains_harmful_content query =
     (let query_lower = py_lower query
      in list_ex (\<lambda>pattern. re_search pattern query_lower) harmful_patterns)"

definition MAX_QUERY_LENGTH :: nat where
  "MAX_QUERY_LENGTH = 5000"

definition MIN_QUERY_LENGTH :: nat where
  "MIN_QUERY_LENGTH = 1"

definition validate_query :: "string \<Rightarrow> bool \<times> string option" where
  \<comment> \<open>the argument is a \<open>str\<close>, so the checks for \<open>None\<close> and for another type pass\<close>
  "validate_query query0 =
     (let query = py_strip query0
      in if length query < MIN_QUERY_LENGTH then (False, Some ''Query is too short'')
         else if length query > MAX_QUERY_LENGTH
           then (False, Some ''Query is too long (max 5000 characters)'')
         else if contains_harmful_content query
           then (False, Some ''Query contains potentially harmful content'')
         else (True, None))"

text \<open>The messages that the entry stage can store in \<open>error\<close>.\<close>

definition validation_messages :: "string set" where
  "validation_messages = {''No user query provided'', ''Query is too short'',
      ''Query is too long (max 5000 characters)'',
      ''Query contains potentially harmful content''}"

function remove_html_tags :: "string \<Rightarrow> string" where
  \<comment> \<open>\<^verbatim>\<open>re.sub(r'<[^>]+>', '', query)\<close>\<close>
  "remove_html_tags [] = []"
| "remove_html_tags (c # cs) =
     (if c = CHR ''<'' \<and> takeWhile (\<lambda>x. x \<noteq> CHR ''>'') cs \<noteq> []
         \<and> dropWhile (\<lambda>x. x \<noteq> CHR ''>'') cs \<noteq> []
      then remove_html_tags (tl (dropWhile (\<lambda>x. x \<noteq> CHR ''>'') cs))
      else c # remove_html_tags cs)"
  by pat_completeness auto
termination
  by (relation "measure length")
    (auto simp: less_Suc_eq_le intro: order_trans [OF diff_le_self length_dropWhile_le])

function collapse_whitespace :: "string \<Rightarrow> string" where
  \<comment> \<open>\<^verbatim>\<open>re.sub(r'\s+', ' ', query)\<close>\<close>
  "collapse_whitespace [] = []"
| "collapse_whitespace (c # cs) =
     (if py_isspace c then CHR '' '' # collapse_whitespace (dropWhile py_isspace cs)
      else c # collapse_whitespace cs)"
  by pat_completeness auto
termination
  by (relation "measure length") (auto simp: less_Suc_eq_le length_dropWhile_le)

definition sanitize_query :: "string \<Rightarrow> string" where
  "sanitize_query query = py_strip (collapse_whitespace (remove_html_tags query))"

definition validate_and_sanitize_query :: "string \<Rightarrow> string + string" where
  \<comment> \<open>\<open>Inl\<close> is the \<open>ValidationError\<close> raised, with its message\<close>
  "validate_and_sanitize_query query =
     (case validate_query query of
        (False, err) \<Rightarrow> Inl (case err of None \<Rightarrow> ''None'' | Some e \<Rightarrow> e)
      | (True, _) \<Rightarrow> Inr (sanitize_query query))"

section \<open>The workflow nodes (workflows/nodes.py)\<close>

text \<open>
  The two external collaborators are parameters of the model. \<open>llm_invoke\<close> is
  \<open>self.llm.invoke(prompt).content\<close> and \<open>numexpr_evaluate\<close> is
  \<open>numexpr.evaluate(expression).item()\<close>; each returns \<open>Inr\<close> of its result or \<open>Inl\<close> of
  the text \<open>str(e)\<close> of the exception it raises. A scalar that \<open>item()\<close> returns is an
  integer, a truth value, or another number given by the text that \<open>str\<close> prints for it.
\<close>

datatype py_scalar = PyInt int | PyBool bool | PyRepr string

fun py_str :: "py_scalar \<Rightarrow> string" where
  "py_str (PyInt i) = str_int i"
| "py_str (PyBool b) = (if b then ''True'' else ''False'')"
| "py_str (PyRepr s) = s"

record env =
  llm_invoke :: "string \<Rightarrow> string + string"
  numexpr_evaluate :: "string \<Rightarrow> string + py_scalar"

record GraphState =
  user_query :: string
  query_type :: string
  response :: string
  calculation_result :: string
  error :: string
  chat_history :: "message list"
  session_id :: string

definition input_node :: "GraphState \<Rightarrow> GraphState" where
  \<comment> \<open>the keys \<open>chat_history\<close> and \<open>error\<close> are always present, so the two defaults at the
      end of the source function change nothing\<close>
  "input_node state =
     (if user_query state = [] then state\<lparr>error := ''No user query provided''\<rparr>
      else
        (case validate_query (user_query state) of
           (False, err) \<Rightarrow> state\<lparr>error := (case err of None \<Rightarrow> [] | Some e \<Rightarrow> e)\<rparr>
         | (True, _) \<Rightarrow> state\<lparr>user_query := sanitize_query (user_query state)\<rparr>))"

definition decision_node :: "GraphState \<Rightarrow> GraphState" where
  "decision_node state =
     (let is_calculation = is_calculation_query (user_query state)
      in if is_calculation then state\<lparr>query_type := ''calculation''\<rparr>
         else state\<lparr>query_type := ''text''\<rparr>)"

definition format_chat_history :: "message list \<Rightarrow> string" where
  "format_chat_history h =
     (if h = [] then ''No previous conversation.''
      else py_join [newline]
             (map (\<lambda>msg. (if msg_type msg = ''user'' then ''User'' else ''Assistant'')
                            @ '': '' @ content msg)
                  (last_n 10 h)))"

definition text_prompt_format :: "string \<Rightarrow> string \<Rightarrow> string" where
  \<comment> \<open>the template of \<open>LangChainFactory.create_text_prompt\<close>, filled in\<close>
  "text_prompt_format uq history_str =
     ''You are a helpful and friendly AI assistant. Based on the conversation history and the user's current query, provide a clear, informative, and helpful response.''
     @ [newline, newline] @ ''Chat History:'' @ [newline] @ history_str
     @ [newline, newline] @ ''User Query: '' @ uq
     @ [newline, newline] @ ''Assistant Response:''"

definition llm_node :: "env \<Rightarrow> GraphState \<Rightarrow> GraphState" where
  "llm_node e state =
     (let history_str = format_chat_history (chat_history state);
          prompt = text_prompt_format (user_query state) history_str
      in case llm_invoke e prompt of
           Inr text \<Rightarrow> state\<lparr>response := text\<rparr>
         | Inl exn \<Rightarrow>
             state\<lparr>error := ''LLM error: '' @ exn,
                   response := ''I apologize, but I encountered an error processing your request. Please try again.''\<rparr>)"

definition filler_words :: "string list" where
  \<comment> \<open>the alternatives of \<^verbatim>\<open>(calculate|compute|what is|solve|the|result|of|=|\?)\<close>\<close>
  "filler_words =
     [''calculate'', ''compute'', ''what is'', ''solve'', ''the'', ''result'', ''of'', ''='', ''?'']"

fun match_alternatives :: "string list \<Rightarrow> string \<Rightarrow> nat option" where
  \<comment> \<open>the length of the first alternative that matches at the start of the string,
      letters compared without case (\<open>re.IGNORECASE\<close>)\<close>
  "match_alternatives [] s = None"
| "match_alternatives (lit # lits) s =
     (if py_lower (take (length lit) s) = lit then Some (length lit)
      else match_alternatives lits s)"

function remove_filler_words :: "string \<Rightarrow> string" where
  \<comment> \<open>\<open>re.sub(pattern, '', query, flags=re.IGNORECASE)\<close>: matches are found from left
      to right and do not overlap\<close>
  "remove_filler_words [] = []"
| "remove_filler_words (c # cs) =
     (case match_alternatives filler_words (c # cs) of
        Some n \<Rightarrow> remove_filler_words (drop n (c # cs))
      | None \<Rightarrow> c # remove_filler_words cs)"
  by pat_completeness auto
termination
  by (relation "measure length") (auto simp: filler_words_def split: if_splits)

definition extract_math_expression :: "string \<Rightarrow> string" where
  "extract_math_expression query =
     (let expression = py_strip (remove_filler_words query)
      in if expression = [] then query else expression)"

definition tool_node :: "env \<Rightarrow> GraphState \<Rightarrow> GraphState" where
  "tool_node e state =
     (let expression = extract_math_expression (user_query state)
      in case numexpr_evaluate e expression of
           Inr result \<Rightarrow>
             state\<lparr>calculation_result := py_str result,
                   response := ''The result of '' @ expression @ '' is '' @ py_str result\<rparr>
         | Inl exn \<Rightarrow>
             state\<lparr>error := ''Calculation error: '' @ exn,
                   response := ''I couldn't perform that calculation. Please provide a valid mathematical expression.''\<rparr>)"

definition memory_node :: "GraphState \<Rightarrow> GraphState" where
  "memory_node state =
     (let h1 = chat_history state
                 @ [\<lparr>msg_type = ''user'', content = user_query state,
                      msg_query_type = Some (query_type state)\<rparr>];
          h2 = h1 @ [\<lparr>msg_type = ''assistant'', content = response state,
                       msg_query_type = None\<rparr>]
      in if length h2 > 20 then state\<lparr>chat_history := last_n 20 h2\<rparr>
         else state\<lparr>chat_history := h2\<rparr>)"

definition output_node :: "GraphState \<Rightarrow> GraphState" where
  "output_node state =
     (if response state = [] then state\<lparr>response := ''I'm sorry, I couldn't generate a response.''\<rparr>
      else state)"

section \<open>The graph and its execution (workflows/chatbot\_graph.py)\<close>

text \<open>
  \<open>_build_dag\<close> registers six nodes, the entry point, five plain edges and one conditional
  edge whose router \<open>_route_query\<close> returns the \<open>query_type\<close> of the state and whose path
  map sends \<^verbatim>\<open>"text"\<close> to the LLM node and \<^verbatim>\<open>"calculation"\<close> to the tool node. A router
  value outside the path map is an error of the graph library, which \<open>process_query\<close>
  catches like any other exception. \<open>run_from\<close> executes a node, follows its edge and
  goes on until \<open>END\<close>; it also returns the nodes it has executed, in order (the
  banners the nodes print).
\<close>

datatype node = Input_Node | Decision_Node | Llm_Node | Tool_Node | Memory_Node | Output_Node

datatype target = Goto node | END

definition route_query :: "GraphState \<Rightarrow> string" where
  "route_query state = query_type state"

definition path_map :: "(string \<times> node) list" where
  "path_map = [(''text'', Llm_Node), (''calculation'', Tool_Node)]"

fun next_target :: "node \<Rightarrow> GraphState \<Rightarrow> string + target" where
  "next_target Input_Node state = Inr (Goto Decision_Node)"
| "next_target Decision_Node state =
     (case map_of path_map (route_query state) of
        Some n \<Rightarrow> Inr (Goto n)
      | None \<Rightarrow> Inl (''unknown route: '' @ route_query state))"
| "next_target Llm_Node state = Inr (Goto Memory_Node)"
| "next_target Tool_Node state = Inr (Goto Memory_Node)"
| "next_target Memory_Node state = Inr (Goto Output_Node)"
| "next_target Output_Node state = Inr END"

fun run_node :: "env \<Rightarrow> node \<Rightarrow> GraphState \<Rightarrow> GraphState" where
  "run_node e Input_Node state = input_node state"
| "run_node e Decision_Node state = decision_node state"
| "run_node e Llm_Node state = llm_node e state"
| "run_node e Tool_Node state = tool_node e state"
| "run_node e Memory_Node state = memory_node state"
| "run_node e Output_Node state = output_node state"

fun node_rank :: "node \<Rightarrow> nat" where
  "node_rank Input_Node = 4"
| "node_rank Decision_Node = 3"
| "node_rank Llm_Node = 2"
| "node_rank Tool_Node = 2"
| "node_rank Memory_Node = 1"
| "node_rank Output_Node = 0"

function run_from :: "env \<Rightarrow> node \<Rightarrow> node list \<Rightarrow> GraphState \<Rightarrow> string + (node list \<times> GraphState)" where
  "run_from e n visited state =
     (case next_target n (run_node e n state) of
        Inl exn \<Rightarrow> Inl exn
      | Inr END \<Rightarrow> Inr (visited @ [n], run_node e n state)
      | Inr (Goto n') \<Rightarrow> run_from e n' (visited @ [n]) (run_node e n state))"
  by pat_completeness auto
termination
proof (relation "measure (\<lambda>(e, n, visited, state). node_rank n)", goal_cases)
  case 1
  show ?case by simp
next
  case (2 e n visited state t n')
  then show ?case
    by (cases n) (auto simp: path_map_def split: option.splits if_splits)
qed

declare run_from.simps [simp del]

definition invoke :: "env \<Rightarrow> GraphState \<Rightarrow> string + (node list \<times> GraphState)" where
  \<comment> \<open>\<open>self.graph.invoke(initial_state)\<close>, from the entry point\<close>
  "invoke e initial_state = run_from e Input_Node [] initial_state"

record query_result =
  success :: bool
  r_response :: string
  r_query_type :: string
  r_chat_history :: "message list"
  r_calculation_result :: string
  r_error :: string

definition initial_graph_state :: "string \<Rightarrow> string \<Rightarrow> message list option \<Rightarrow> GraphState" where
  "initial_graph_state query sid session_history =
     \<lparr>user_query = query, query_type = [], response = [], calculation_result = [],
      error = [],
      chat_history = (case session_history of None \<Rightarrow> [] | Some h \<Rightarrow> h),
      session_id = sid\<rparr>"

definition process_query :: "env \<Rightarrow> string \<Rightarrow> string \<Rightarrow> message list option \<Rightarrow> query_result" where
  "process_query e query sid session_history =
     (case invoke e (initial_graph_state query sid session_history) of
        Inr (visited, final_state) \<Rightarrow>
          \<lparr>success = True,
           r_response = response final_state,
           r_query_type = query_type final_state,
           r_chat_history = chat_history final_state,
           r_calculation_result = calculation_result final_state,
           r_error = error final_state\<rparr>
      | Inl exn \<Rightarrow>
          \<lparr>success = False,
           r_response = ''An error occurred while processing your request.'',
           r_query_type = [],
           r_chat_history = (case session_history of None \<Rightarrow> [] | Some h \<Rightarrow> h),
           r_calculation_result = [],
           r_error = exn\<rparr>)"

section \<open>The message store (services/message\_service.py)\<close>









section \<open>The chatbot service (services/chatbot\_service.py)\<close>






section \<open>Sessions\<close>





section \<open>Sample collaborators\<close>

text \<open>
  Concrete collaborators on which the theorems are instantiated: a language model that
  always answers the same, one that always fails, and an evaluator for a sum, difference
  or product of two decimal literals that fails on everything else.
\<close>

definition nat_of_digits :: "string \<Rightarrow> nat" where
  "nat_of_digits ds = foldl (\<lambda>a c. 10 * a + (code_point c - 48)) 0 ds"

definition sample_evaluate :: "string \<Rightarrow> string + py_scalar" where
  "sample_evaluate expr =
     (let a = takeWhile is_digit expr
      in case dropWhile py_isspace (dropWhile is_digit expr) of
           [] \<Rightarrow> Inl (''cannot evaluate '' @ expr)
         | opr # r \<Rightarrow>
             (let r' = dropWhile py_isspace r; b = takeWhile is_digit r'
              in if a \<noteq> [] \<and> b \<noteq> [] \<and> dropWhile is_digit r' = [] \<and> opr \<in> set ''+-*''
                 then Inr (PyInt
                   (if opr = CHR ''+'' then int (nat_of_digits a) + int (nat_of_digits b)
                    else if opr = CHR ''-'' then int (nat_of_digits a) - int (nat_of_digits b)
                    else int (nat_of_digits a) * int (nat_of_digits b)))
                 else Inl (''cannot evaluate '' @ expr)))"

definition sample_env :: env where
  "sample_env = \<lparr>llm_invoke = (\<lambda>prompt. Inr ''Hello! How can I help you?''),
                 numexpr_evaluate = sample_evaluate\<rparr>"

definition failing_env :: env where
  "failing_env = \<lparr>llm_invoke = (\<lambda>prompt. Inl ''Connection error.''),
                  numexpr_evaluate = sample_evaluate\<rparr>"









section \<open>Properties of the session cache\<close>

lemma is_expired_59: "\<not> is_expired (T + timedelta_minutes 59) T"
  by (simp add: is_expired_def timedelta_minutes_def CACHE_EXPIRATION_MINUTES_def)

lemma is_expired_61: "is_expired (T + timedelta_minutes 61) T"
  by (simp add: is_expired_def timedelta_minutes_def CACHE_EXPIRATION_MINUTES_def)

lemma map_of_save:
  "map_of (save_session_history T sid h c) sid' =
     (if sid' = sid then Some \<lparr>history = h, timestamp = T\<rparr> else map_of c sid')"
  by (simp add: save_session_history_def update_conv')

lemma snd_clear_session: "snd (clear_session sid c) = AList.delete sid c"
proof (cases "sid \<in> set (map fst c)")
  case True
  then show ?thesis by (simp add: clear_session_def)
next
  case False
  then have "AList.delete sid c = c"
    by (induction c) auto
  with False show ?thesis by (simp add: clear_session_def)
qed

lemma map_of_clear_session:
  "map_of (snd (clear_session sid c)) sid' = (if sid' = sid then None else map_of c sid')"
  by (simp add: snd_clear_session delete_conv')

lemma map_of_fold_clear:
  "map_of (fold (\<lambda>sid c'. snd (clear_session sid c')) ks c) sid =
     (if sid \<in> set ks then None else map_of c sid)"
  by (induction ks arbitrary: c) (auto simp: map_of_clear_session)

lemma expired_keys_iff:
  "dict_inv c \<Longrightarrow>
   sid \<in> set (map fst (filter (\<lambda>(sid, d). is_expired now (timestamp d)) c)) \<longleftrightarrow>
     (\<exists>d. map_of c sid = Some d \<and> is_expired now (timestamp d))"
  by (force simp: dict_inv_def)

lemma map_of_cleanup:
  "dict_inv c \<Longrightarrow>
   map_of (snd (cleanup_expired_sessions now c)) sid =
     (case map_of c sid of None \<Rightarrow> None
      | Some d \<Rightarrow> if is_expired now (timestamp d) then None else Some d)"
  unfolding cleanup_expired_sessions_def Let_def snd_conv map_of_fold_clear
  by (auto simp: expired_keys_iff simp del: set_map split: option.splits)

lemma dict_inv_save: "dict_inv c \<Longrightarrow> dict_inv (save_session_history T sid h c)"
  by (simp add: dict_inv_def save_session_history_def distinct_update)

lemma dict_inv_clear: "dict_inv c \<Longrightarrow> dict_inv (snd (clear_session sid c))"
  by (simp add: dict_inv_def clear_session_def distinct_delete)

lemma dict_inv_fold_clear:
  "dict_inv c \<Longrightarrow> dict_inv (fold (\<lambda>sid c'. snd (clear_session sid c')) ks c)"
  by (induction ks arbitrary: c) (auto simp: dict_inv_clear)

lemma dict_inv_cleanup: "dict_inv c \<Longrightarrow> dict_inv (snd (cleanup_expired_sessions now c))"
  by (simp add: cleanup_expired_sessions_def Let_def dict_inv_fold_clear)

lemma dict_inv_get: "dict_inv c \<Longrightarrow> dict_inv (snd (get_session_history now sid c))"
  by (auto simp: get_session_history_def dict_inv_clear split: option.splits)

lemma fold_clear_filter:
  "fold (\<lambda>sid c'. snd (clear_session sid c')) ks c = filter (\<lambda>(k, d). k \<notin> set ks) c"
proof (induction ks arbitrary: c)
  case Nil
  show ?case by simp
next
  case (Cons k ks)
  have "filter (\<lambda>(k', d). k' \<notin> set ks) (AList.delete k c) = filter (\<lambda>(k', d). k' \<notin> set (k # ks)) c"
    by (induction c) auto
  with Cons show ?case by (simp add: snd_clear_session)
qed

lemma cleanup_keeps_live:
  assumes "dict_inv c"
  shows "snd (cleanup_expired_sessions now c) = filter (\<lambda>(sid, d). \<not> is_expired now (timestamp d)) c"
proof -
  have "(k \<notin> set (map fst (filter (\<lambda>(sid, d). is_expired now (timestamp d)) c))) = (\<not> is_expired now (timestamp d))"
    if "(k, d) \<in> set c" for k d
  proof -
    from that assms have "map_of c k = Some d"
      by (simp add: dict_inv_def)
    then show ?thesis
      using expired_keys_iff [OF assms, of k now] by auto
  qed
  then have "filter (\<lambda>(k, d). k \<notin> set (map fst (filter (\<lambda>(sid, d). is_expired now (timestamp d)) c))) c
      = filter (\<lambda>(sid, d). \<not> is_expired now (timestamp d)) c"
    by (intro filter_cong) auto
  then show ?thesis
    by (simp add: cleanup_expired_sessions_def Let_def fold_clear_filter)
qed

lemma live_sessions_set:
  assumes "dict_inv c"
  shows "{sid. session_exists now sid c} = set (map fst (filter (\<lambda>(sid, d). \<not> is_expired now (timestamp d)) c))"
proof (intro set_eqI iffI)
  fix sid assume "sid \<in> {sid. session_exists now sid c}"
  then obtain d where d: "map_of c sid = Some d" "\<not> is_expired now (timestamp d)"
    by (auto simp: session_exists_def split: option.splits)
  then have "(sid, d) \<in> set c" by (simp add: map_of_SomeD)
  with d show "sid \<in> set (map fst (filter (\<lambda>(sid, d). \<not> is_expired now (timestamp d)) c))"
    by force
next
  fix sid assume "sid \<in> set (map fst (filter (\<lambda>(sid, d). \<not> is_expired now (timestamp d)) c))"
  then obtain d where "(sid, d) \<in> set c" "\<not> is_expired now (timestamp d)" by auto
  with assms show "sid \<in> {sid. session_exists now sid c}"
    by (simp add: session_exists_def dict_inv_def)
qed

lemma card_live_sessions:
  assumes "dict_inv c"
  shows "card {sid. session_exists now sid c} = length (filter (\<lambda>(sid, d). \<not> is_expired now (timestamp d)) c)"
proof -
  have "distinct (map fst (filter (\<lambda>(sid, d). \<not> is_expired now (timestamp d)) c))"
    using assms by (simp add: dict_inv_def distinct_map_filter)
  then show ?thesis
    unfolding live_sessions_set [OF assms] by (simp add: distinct_card del: set_map)
qed

lemma card_live_sessions_le: "card {sid. session_exists now sid c} \<le> get_session_count c"
proof -
  have "{sid. session_exists now sid c} \<subseteq> set (map fst c)"
    by (auto simp: session_exists_def split: option.splits dest!: map_of_SomeD) force
  then have "card {sid. session_exists now sid c} \<le> card (set (map fst c))"
    by (intro card_mono) auto
  also have "\<dots> \<le> length (map fst c)" by (rule card_length)
  finally show ?thesis by (simp add: get_session_count_def)
qed

lemma length_delete_present:
  "dict_inv c \<Longrightarrow> map_of c sid = Some d \<Longrightarrow> Suc (length (AList.delete sid c)) = length c"
proof (induction c)
  case Nil
  then show ?case by simp
next
  case (Cons p c)
  show ?case
  proof (cases "fst p = sid")
    case True
    with Cons.prems have "sid \<notin> fst ` set c" by (auto simp: dict_inv_def)
    then have "AList.delete sid c = c" by (induction c) auto
    with True show ?thesis by (cases p) simp
  next
    case False
    with Cons show ?thesis by (cases p) (auto simp: dict_inv_def)
  qed
qed

text \<open>
  Claim C8. An entry written by \<open>save_session_history\<close> at time \<open>T\<close> is returned by
  \<open>get_session_history\<close> at \<open>T\<close> + 59 minutes, with the cache unchanged. At \<open>T\<close> + 61
  minutes the same call returns the empty list and removes the entry. Both hold whether or
  not \<open>cleanup_expired_sessions\<close> has run in between (for the first, a sweep taken no
  later than the read). A miss returns the empty list and an unchanged cache; the
  function has no failing branch.
\<close>

theorem cache_ttl_get:
  "get_session_history (T + timedelta_minutes 59) sid (save_session_history T sid h c)
     = (h, save_session_history T sid h c)
   \<and> get_session_history (T + timedelta_minutes 61) sid (save_session_history T sid h c)
     = ([], AList.delete sid (save_session_history T sid h c))
   \<and> map_of (snd (get_session_history (T + timedelta_minutes 61) sid
         (save_session_history T sid h c))) sid = None
   \<and> (dict_inv c \<and> t \<le> T + timedelta_minutes 59 \<longrightarrow>
        fst (get_session_history (T + timedelta_minutes 59) sid
          (snd (cleanup_expired_sessions t (save_session_history T sid h c)))) = h)
   \<and> (dict_inv c \<longrightarrow>
        fst (get_session_history (T + timedelta_minutes 61) sid
          (snd (cleanup_expired_sessions t (save_session_history T sid h c)))) = []
        \<and> map_of (snd (get_session_history (T + timedelta_minutes 61) sid
          (snd (cleanup_expired_sessions t (save_session_history T sid h c))))) sid = None)
   \<and> (map_of c sid = None \<longrightarrow> get_session_history now sid c = ([], c))"
proof (intro conjI impI)
  let ?c = "save_session_history T sid h c"
  have stored: "map_of ?c sid = Some \<lparr>history = h, timestamp = T\<rparr>"
    by (simp add: map_of_save)
  show "get_session_history (T + timedelta_minutes 59) sid ?c = (h, ?c)"
    by (simp add: get_session_history_def stored is_expired_59)
  show late: "get_session_history (T + timedelta_minutes 61) sid ?c = ([], AList.delete sid ?c)"
    by (simp add: get_session_history_def stored is_expired_61 snd_clear_session)
  show "map_of (snd (get_session_history (T + timedelta_minutes 61) sid ?c)) sid = None"
    by (simp add: late delete_conv')
  show "fst (get_session_history (T + timedelta_minutes 59) sid
          (snd (cleanup_expired_sessions t ?c))) = h"
    if "dict_inv c \<and> t \<le> T + timedelta_minutes 59"
  proof -
    from that have inv: "dict_inv ?c" by (simp add: dict_inv_save)
    from that have "\<not> is_expired t T"
      by (simp add: is_expired_def timedelta_minutes_def CACHE_EXPIRATION_MINUTES_def)
    then have "map_of (snd (cleanup_expired_sessions t ?c)) sid
        = Some \<lparr>history = h, timestamp = T\<rparr>"
      by (simp add: map_of_cleanup [OF inv] stored)
    then show ?thesis
      by (simp add: get_session_history_def is_expired_59)
  qed
  show "fst (get_session_history (T + timedelta_minutes 61) sid
          (snd (cleanup_expired_sessions t ?c))) = []" if "dict_inv c"
  proof -
    from that have inv: "dict_inv ?c" by (simp add: dict_inv_save)
    show ?thesis
      by (simp add: get_session_history_def map_of_cleanup [OF inv] stored is_expired_61)
  qed
  show "map_of (snd (get_session_history (T + timedelta_minutes 61) sid
          (snd (cleanup_expired_sessions t ?c)))) sid = None" if "dict_inv c"
  proof -
    from that have inv: "dict_inv ?c" by (simp add: dict_inv_save)
    show ?thesis
      by (simp add: get_session_history_def map_of_cleanup [OF inv] stored is_expired_61
          map_of_clear_session)
  qed
  show "get_session_history now sid c = ([], c)" if "map_of c sid = None"
    using that by (simp add: get_session_history_def)
qed

theorem cache_ttl_get_witness:
  "dict_inv [] \<and> timedelta_minutes 30 \<le> 0 + timedelta_minutes 59
   \<and> map_of ([] :: session_cache) ''s2'' = None
   \<and> fst (get_session_history (0 + timedelta_minutes 59) ''s1''
        (snd (cleanup_expired_sessions (timedelta_minutes 30)
          (save_session_history 0 ''s1''
            [\<lparr>msg_type = ''user'', content = ''hi'', msg_query_type = Some ''text''\<rparr>] []))))
      = [\<lparr>msg_type = ''user'', content = ''hi'', msg_query_type = Some ''text''\<rparr>]
   \<and> fst (get_session_history (0 + timedelta_minutes 61) ''s1''
        (snd (cleanup_expired_sessions (timedelta_minutes 30)
          (save_session_history 0 ''s1''
            [\<lparr>msg_type = ''user'', content = ''hi'', msg_query_type = Some ''text''\<rparr>] []))))
      = []"
  using cache_ttl_get [where T = 0 and sid = "''s1''" and c = "[]"
      and h = "[\<lparr>msg_type = ''user'', content = ''hi'', msg_query_type = Some ''text''\<rparr>]"
      and t = "timedelta_minutes 30" and now = 0]
  by (simp add: dict_inv_def timedelta_minutes_def)

text \<open>
  Claim C9, as stated, fails: \<open>clear_session\<close> never looks at the clock, so on an entry
  that has expired but is still stored it returns \<open>True\<close>, where the claim says
  \<open>False\<close>. Below, the entry written at time 0 is expired at minute 61 and
  \<open>session_exists\<close> denies it, yet \<open>clear_session\<close> returns \<open>True\<close>.
\<close>

theorem clear_session_expired_counterexample:
  "is_expired (timedelta_minutes 61) 0
   \<and> \<not> session_exists (timedelta_minutes 61) ''s1'' (save_session_history 0 ''s1'' [] [])
   \<and> fst (clear_session ''s1'' (save_session_history 0 ''s1'' [] [])) = True"
  by (simp add: is_expired_def timedelta_minutes_def CACHE_EXPIRATION_MINUTES_def
      session_exists_def save_session_history_def clear_session_def)

text \<open>
  Claim C9, amended. \<open>clear_session\<close> returns \<open>True\<close> exactly when an entry for the
  session is stored, expired or not. On a stored entry it returns \<open>True\<close> and removes
  it, so that a following \<open>get_session_history\<close> is a miss at any time. On an absent
  entry (also one that a read or a sweep has already evicted) it returns \<open>False\<close> and
  leaves the cache as it was.
\<close>

theorem clear_session_stored_entry:
  "fst (clear_session sid c) = (map_of c sid \<noteq> None)
   \<and> (map_of c sid \<noteq> None \<longrightarrow>
        fst (clear_session sid c) = True
        \<and> map_of (snd (clear_session sid c)) sid = None
        \<and> get_session_history now sid (snd (clear_session sid c))
            = ([], snd (clear_session sid c)))
   \<and> (map_of c sid = None \<longrightarrow> clear_session sid c = (False, c))"
proof (cases "map_of c sid")
  case None
  then have "sid \<notin> set (map fst c)"
    by (simp add: map_of_eq_None_iff)
  with None show ?thesis
    by (simp add: clear_session_def)
next
  case (Some d)
  then have "sid \<in> fst ` set c"
    using map_of_eq_None_iff [of c sid] by auto
  then have cs: "clear_session sid c = (True, AList.delete sid c)"
    by (simp add: clear_session_def)
  have gone: "map_of (AList.delete sid c) sid = None"
    by (simp add: delete_conv')
  show ?thesis
    by (simp add: Some cs gone get_session_history_def)
qed

theorem clear_session_stored_entry_witness:
  "map_of (save_session_history 0 ''s1'' [] []) ''s1'' \<noteq> None
   \<and> fst (clear_session ''s1'' (save_session_history 0 ''s1'' [] [])) = True
   \<and> get_session_history 5 ''s1'' (snd (clear_session ''s1'' (save_session_history 0 ''s1'' [] [])))
       = ([], [])
   \<and> map_of (save_session_history 0 ''s1'' [] []) ''s2'' = None
   \<and> clear_session ''s2'' (save_session_history 0 ''s1'' [] [])
       = (False, save_session_history 0 ''s1'' [] [])"
  using clear_session_stored_entry [where sid = "''s1''" and now = 5
      and c = "save_session_history 0 ''s1'' [] []"]
    clear_session_stored_entry [where sid = "''s2''" and now = 5
      and c = "save_session_history 0 ''s1'' [] []"]
  by (simp add: save_session_history_def clear_session_def)

text \<open>
  Claim C10. \<open>get_session_count\<close> is the number of stored entries, and the number of
  sessions for which \<open>session_exists\<close> holds never exceeds it. Whenever the cache holds an
  entry past the expiration time, \<open>session_exists\<close> is false for that session while the
  entry is still counted, so the count is strictly larger than the number of live
  sessions; a \<open>get_session_history\<close> on that session lowers the count by one, and after
  \<open>cleanup_expired_sessions\<close> the count equals the number of live sessions.
\<close>

theorem session_count_includes_expired:
  "card {sid. session_exists now sid c} \<le> get_session_count c
   \<and> (dict_inv c \<and> map_of c sid = Some d \<and> is_expired now (timestamp d) \<longrightarrow>
        \<not> session_exists now sid c
        \<and> card {s. session_exists now s c} < get_session_count c
        \<and> Suc (get_session_count (snd (get_session_history now sid c))) = get_session_count c
        \<and> get_session_count (snd (cleanup_expired_sessions now c))
            = card {s. session_exists now s c})"
proof (intro conjI impI)
  show "card {sid. session_exists now sid c} \<le> get_session_count c"
    by (rule card_live_sessions_le)
next
  assume a: "dict_inv c \<and> map_of c sid = Some d \<and> is_expired now (timestamp d)"
  then have inv: "dict_inv c" and stored: "map_of c sid = Some d"
    and old: "is_expired now (timestamp d)" by simp_all
  show "\<not> session_exists now sid c"
    by (simp add: session_exists_def stored old)
  from stored have "(sid, d) \<in> set c" by (rule map_of_SomeD)
  then have "length (filter (\<lambda>(s, d). \<not> is_expired now (timestamp d)) c) < length c"
    by (rule length_filter_less) (simp add: old)
  then show "card {s. session_exists now s c} < get_session_count c"
    by (simp add: card_live_sessions [OF inv] get_session_count_def)
  show "Suc (get_session_count (snd (get_session_history now sid c))) = get_session_count c"
    using length_delete_present [OF inv stored]
    by (simp add: get_session_history_def stored old snd_clear_session get_session_count_def)
  show "get_session_count (snd (cleanup_expired_sessions now c))
      = card {s. session_exists now s c}"
    by (simp add: get_session_count_def cleanup_keeps_live [OF inv] card_live_sessions [OF inv])
qed

theorem session_count_includes_expired_witness:
  "dict_inv (save_session_history 0 ''s1'' [] [])
   \<and> map_of (save_session_history 0 ''s1'' [] []) ''s1'' = Some \<lparr>history = [], timestamp = 0\<rparr>
   \<and> is_expired (timedelta_minutes 61) (timestamp \<lparr>history = [], timestamp = 0\<rparr>)
   \<and> \<not> session_exists (timedelta_minutes 61) ''s1'' (save_session_history 0 ''s1'' [] [])
   \<and> get_session_count (save_session_history 0 ''s1'' [] []) = 1
   \<and> card {s. session_exists (timedelta_minutes 61) s (save_session_history 0 ''s1'' [] [])} < 1"
  using session_count_includes_expired [where sid = "''s1''" and now = "timedelta_minutes 61"
      and c = "save_session_history 0 ''s1'' [] []" and d = "\<lparr>history = [], timestamp = 0\<rparr>"]
  by (simp add: dict_inv_def save_session_history_def is_expired_def timedelta_minutes_def
      CACHE_EXPIRATION_MINUTES_def get_session_count_def)

section \<open>Properties of the workflow\<close>

lemma decision_node_eq:
  "decision_node s = s\<lparr>query_type := (if is_calculation_query (user_query s) then ''calculation'' else ''text'')\<rparr>"
  by (simp add: decision_node_def)

lemma invoke_eq:
  "invoke e s0 =
     Inr ([Input_Node, Decision_Node,
           (if is_calculation_query (user_query (input_node s0)) then Tool_Node else Llm_Node),
           Memory_Node, Output_Node],
          output_node (memory_node
            (run_node e (if is_calculation_query (user_query (input_node s0)) then Tool_Node else Llm_Node)
               (decision_node (input_node s0)))))"
  by (simp add: invoke_def run_from.simps decision_node_eq path_map_def route_query_def)


lemma validate_query_cases:
  "validate_query q = (True, None)
   \<or> validate_query q = (False, Some ''Query is too short'')
   \<or> validate_query q = (False, Some ''Query is too long (max 5000 characters)'')
   \<or> validate_query q = (False, Some ''Query contains potentially harmful content'')"
  by (simp add: validate_query_def Let_def)

lemma input_node_valid:
  assumes "user_query s \<noteq> []" and "fst (validate_query (user_query s))"
  shows "input_node s = s\<lparr>user_query := sanitize_query (user_query s)\<rparr>"
proof -
  obtain ok err where v: "validate_query (user_query s) = (ok, err)"
    by (cases "validate_query (user_query s)")
  with assms(2) have "ok" by simp
  with v assms(1) show ?thesis by (simp add: input_node_def)
qed

lemma validation_messages_nonempty: "msg \<in> validation_messages \<Longrightarrow> msg \<noteq> []"
  unfolding validation_messages_def by (elim insertE emptyE) simp_all

lemma input_node_invalid:
  assumes "user_query s = [] \<or> \<not> fst (validate_query (user_query s))"
  shows "\<exists>msg \<in> validation_messages. input_node s = s\<lparr>error := msg\<rparr>"
proof (cases "user_query s = []")
  case True
  have "''No user query provided'' \<in> validation_messages"
    unfolding validation_messages_def by (rule insertI1)
  moreover from True have "input_node s = s\<lparr>error := ''No user query provided''\<rparr>"
    by (simp add: input_node_def)
  ultimately show ?thesis by (rule rev_bexI)
next
  case False
  with assms have bad: "\<not> fst (validate_query (user_query s))" by simp
  from validate_query_cases [of "user_query s"] bad
  consider "validate_query (user_query s) = (False, Some ''Query is too short'')"
    | "validate_query (user_query s) = (False, Some ''Query is too long (max 5000 characters)'')"
    | "validate_query (user_query s) = (False, Some ''Query contains potentially harmful content'')"
    by (elim disjE) simp_all
  then show ?thesis
  proof cases
    case 1
    have "''Query is too short'' \<in> validation_messages"
      unfolding validation_messages_def by (intro insertI1 insertI2)
    moreover from 1 False have "input_node s = s\<lparr>error := ''Query is too short''\<rparr>"
      by (simp add: input_node_def)
    ultimately show ?thesis by (rule rev_bexI)
  next
    case 2
    have "''Query is too long (max 5000 characters)'' \<in> validation_messages"
      unfolding validation_messages_def by (intro insertI1 insertI2)
    moreover from 2 False
    have "input_node s = s\<lparr>error := ''Query is too long (max 5000 characters)''\<rparr>"
      by (simp add: input_node_def)
    ultimately show ?thesis by (rule rev_bexI)
  next
    case 3
    have "''Query contains potentially harmful content'' \<in> validation_messages"
      unfolding validation_messages_def by (intro insertI1 insertI2)
    moreover from 3 False
    have "input_node s = s\<lparr>error := ''Query contains potentially harmful content''\<rparr>"
      by (simp add: input_node_def)
    ultimately show ?thesis by (rule rev_bexI)
  qed
qed

lemma input_node_history [simp]: "chat_history (input_node s) = chat_history s"
proof (cases "user_query s \<noteq> [] \<and> fst (validate_query (user_query s))")
  case True
  then show ?thesis by (simp add: input_node_valid)
next
  case False
  then obtain msg where "input_node s = s\<lparr>error := msg\<rparr>"
    using input_node_invalid [of s] by blast
  then show ?thesis by simp
qed

lemma input_node_keeps_error: "error s \<noteq> [] \<Longrightarrow> error (input_node s) \<noteq> []"
proof (cases "user_query s \<noteq> [] \<and> fst (validate_query (user_query s))")
  case True
  moreover assume "error s \<noteq> []"
  ultimately show ?thesis by (simp add: input_node_valid)
next
  case False
  then obtain msg where "msg \<in> validation_messages" "input_node s = s\<lparr>error := msg\<rparr>"
    using input_node_invalid [of s] by blast
  then show ?thesis by (simp add: validation_messages_nonempty)
qed

lemma decision_node_fields [simp]:
  "chat_history (decision_node s) = chat_history s"
  "error (decision_node s) = error s"
  "user_query (decision_node s) = user_query s"
  "response (decision_node s) = response s"
  "calculation_result (decision_node s) = calculation_result s"
  by (simp_all add: decision_node_eq)

lemma llm_node_fields [simp]:
  "chat_history (llm_node e s) = chat_history s"
  "user_query (llm_node e s) = user_query s"
  "query_type (llm_node e s) = query_type s"
  "calculation_result (llm_node e s) = calculation_result s"
  by (simp_all add: llm_node_def Let_def split: sum.splits)

lemma tool_node_fields [simp]:
  "chat_history (tool_node e s) = chat_history s"
  "user_query (tool_node e s) = user_query s"
  "query_type (tool_node e s) = query_type s"
  by (simp_all add: tool_node_def Let_def split: sum.splits)

lemma llm_node_keeps_error: "error s \<noteq> [] \<Longrightarrow> error (llm_node e s) \<noteq> []"
  by (simp add: llm_node_def Let_def split: sum.splits)

lemma tool_node_keeps_error: "error s \<noteq> [] \<Longrightarrow> error (tool_node e s) \<noteq> []"
  by (simp add: tool_node_def Let_def split: sum.splits)

lemma tool_node_response: "response (tool_node e s) \<noteq> []"
  by (simp add: tool_node_def Let_def split: sum.splits)

lemma last_n_short: "length xs \<le> n \<Longrightarrow> last_n n xs = xs"
  by (simp add: last_n_def)


lemma memory_node_fields [simp]:
  "error (memory_node s) = error s"
  "response (memory_node s) = response s"
  "user_query (memory_node s) = user_query s"
  "query_type (memory_node s) = query_type s"
  "calculation_result (memory_node s) = calculation_result s"
  by (simp_all add: memory_node_def Let_def)

lemma memory_node_history:
  "chat_history (memory_node s) =
     last_n 20 (chat_history s @
       [\<lparr>msg_type = ''user'', content = user_query s, msg_query_type = Some (query_type s)\<rparr>,
        \<lparr>msg_type = ''assistant'', content = response s, msg_query_type = None\<rparr>])"
  by (simp add: memory_node_def Let_def last_n_short)

lemma output_node_fields [simp]:
  "error (output_node s) = error s"
  "chat_history (output_node s) = chat_history s"
  "user_query (output_node s) = user_query s"
  "query_type (output_node s) = query_type s"
  "calculation_result (output_node s) = calculation_result s"
  by (simp_all add: output_node_def)

lemma output_node_response: "response (output_node s) \<noteq> []"
  by (simp add: output_node_def)

lemma run_node_keeps_error: "error s \<noteq> [] \<Longrightarrow> error (run_node e n s) \<noteq> []"
  by (cases n) (simp_all add: input_node_keeps_error llm_node_keeps_error tool_node_keeps_error)

lemma run_node_branch_fields:
  assumes "b = Tool_Node \<or> b = Llm_Node"
  shows "chat_history (run_node e b s) = chat_history s"
    and "user_query (run_node e b s) = user_query s"
    and "query_type (run_node e b s) = query_type s"
  using assms by auto

lemma process_query_fields:
  assumes s0: "s0 = initial_graph_state q sid sh"
    and s3: "s3 = run_node e (if is_calculation_query (user_query (input_node s0)) then Tool_Node else Llm_Node)
                    (decision_node (input_node s0))"
  shows "success (process_query e q sid sh)"
    and "r_response (process_query e q sid sh) = response (output_node (memory_node s3))"
    and "r_query_type (process_query e q sid sh) = query_type (decision_node (input_node s0))"
    and "r_chat_history (process_query e q sid sh) =
           last_n 20 (chat_history s0 @
             [\<lparr>msg_type = ''user'', content = user_query (input_node s0),
                msg_query_type = Some (query_type (decision_node (input_node s0)))\<rparr>,
              \<lparr>msg_type = ''assistant'', content = response s3, msg_query_type = None\<rparr>])"
    and "r_calculation_result (process_query e q sid sh) = calculation_result s3"
    and "r_error (process_query e q sid sh) = error s3"
proof -
  have inv: "invoke e (initial_graph_state q sid sh) =
      Inr ([Input_Node, Decision_Node,
           (if is_calculation_query (user_query (input_node s0)) then Tool_Node else Llm_Node),
           Memory_Node, Output_Node], output_node (memory_node s3))"
    unfolding s3 s0 by (rule invoke_eq)
  have b: "user_query s3 = user_query (input_node s0)"
    "query_type s3 = query_type (decision_node (input_node s0))"
    "chat_history s3 = chat_history s0"
    unfolding s3 by (simp_all add: run_node_branch_fields)
  show "success (process_query e q sid sh)"
    by (simp add: process_query_def inv)
  show "r_response (process_query e q sid sh) = response (output_node (memory_node s3))"
    by (simp add: process_query_def inv)
  show "r_query_type (process_query e q sid sh) = query_type (decision_node (input_node s0))"
    by (simp add: process_query_def inv b)
  show "r_chat_history (process_query e q sid sh) =
           last_n 20 (chat_history s0 @
             [\<lparr>msg_type = ''user'', content = user_query (input_node s0),
                msg_query_type = Some (query_type (decision_node (input_node s0)))\<rparr>,
              \<lparr>msg_type = ''assistant'', content = response s3, msg_query_type = None\<rparr>])"
    by (simp add: process_query_def inv memory_node_history b)
  show "r_calculation_result (process_query e q sid sh) = calculation_result s3"
    by (simp add: process_query_def inv)
  show "r_error (process_query e q sid sh) = error s3"
    by (simp add: process_query_def inv)
qed

text \<open>
  Claim C1. In every execution of a query in which the entry stage, the generation stage or
  the calculation stage leaves a non-empty \<open>error\<close>, the graph still runs its five stages
  in order: the recording stage appends the user entry and the assistant entry to the
  history (and keeps its last 20 entries), the exit stage runs, and \<open>error\<close> is non-empty
  in every later state and in the result of \<open>process_query\<close>. No stage empties an
  \<open>error\<close> that is already set.
\<close>

theorem stage_error_does_not_stop_pipeline:
  "(let s0 = initial_graph_state q sid sh;
        s1 = input_node s0;
        s2 = decision_node s1;
        b = (if query_type s2 = ''calculation'' then Tool_Node else Llm_Node);
        s3 = run_node e b s2;
        s4 = memory_node s3;
        s5 = output_node s4;
        r = process_query e q sid sh
    in error s1 \<noteq> [] \<or> error s3 \<noteq> [] \<longrightarrow>
         invoke e s0 = Inr ([Input_Node, Decision_Node, b, Memory_Node, Output_Node], s5)
         \<and> chat_history s4 =
             last_n 20 (chat_history s0 @
               [\<lparr>msg_type = ''user'', content = user_query s3,
                  msg_query_type = Some (query_type s3)\<rparr>,
                \<lparr>msg_type = ''assistant'', content = response s3, msg_query_type = None\<rparr>])
         \<and> chat_history s5 = chat_history s4
         \<and> error s3 \<noteq> [] \<and> error s4 \<noteq> [] \<and> error s5 \<noteq> []
         \<and> success r \<and> r_error r = error s5 \<and> r_chat_history r = chat_history s5)
   \<and> (error s \<noteq> [] \<longrightarrow> error (run_node e n s) \<noteq> [])"
proof -
  define s0 where "s0 = initial_graph_state q sid sh"
  define b where "b = (if query_type (decision_node (input_node s0)) = ''calculation''
    then Tool_Node else Llm_Node)"
  define s3 where "s3 = run_node e b (decision_node (input_node s0))"
  have b_eq: "b = (if is_calculation_query (user_query (input_node s0)) then Tool_Node else Llm_Node)"
    by (simp add: b_def decision_node_eq)
  have b_cases: "b = Tool_Node \<or> b = Llm_Node"
    by (simp add: b_def)
  have s3_eq: "s3 = run_node e (if is_calculation_query (user_query (input_node s0)) then Tool_Node else Llm_Node)
                    (decision_node (input_node s0))"
    by (simp add: s3_def b_eq)
  note pq = process_query_fields [OF s0_def s3_eq]
  have inv: "invoke e s0 = Inr ([Input_Node, Decision_Node, b, Memory_Node, Output_Node],
      output_node (memory_node s3))"
    unfolding s3_def b_eq by (rule invoke_eq)
  have hist: "chat_history (memory_node s3) =
      last_n 20 (chat_history s0 @
        [\<lparr>msg_type = ''user'', content = user_query s3, msg_query_type = Some (query_type s3)\<rparr>,
         \<lparr>msg_type = ''assistant'', content = response s3, msg_query_type = None\<rparr>])"
    unfolding memory_node_history by (simp add: s3_def run_node_branch_fields [OF b_cases])
  have flds: "user_query s3 = user_query (input_node s0)"
    "query_type s3 = query_type (decision_node (input_node s0))"
    unfolding s3_def by (simp_all add: run_node_branch_fields [OF b_cases])
  have err: "error s3 \<noteq> []" if "error (input_node s0) \<noteq> [] \<or> error s3 \<noteq> []"
  proof -
    have "error (run_node e b (decision_node (input_node s0))) \<noteq> []"
      if "error (input_node s0) \<noteq> []"
      by (rule run_node_keeps_error) (simp add: that)
    with \<open>error (input_node s0) \<noteq> [] \<or> error s3 \<noteq> []\<close> show ?thesis
      unfolding s3_def by blast
  qed
  have main: "error (input_node s0) \<noteq> [] \<or> error s3 \<noteq> [] \<longrightarrow>
         invoke e s0 = Inr ([Input_Node, Decision_Node, b, Memory_Node, Output_Node],
           output_node (memory_node s3))
         \<and> chat_history (memory_node s3) =
             last_n 20 (chat_history s0 @
               [\<lparr>msg_type = ''user'', content = user_query s3,
                  msg_query_type = Some (query_type s3)\<rparr>,
                \<lparr>msg_type = ''assistant'', content = response s3, msg_query_type = None\<rparr>])
         \<and> chat_history (output_node (memory_node s3)) = chat_history (memory_node s3)
         \<and> error s3 \<noteq> [] \<and> error (memory_node s3) \<noteq> []
         \<and> error (output_node (memory_node s3)) \<noteq> []
         \<and> success (process_query e q sid sh)
         \<and> r_error (process_query e q sid sh) = error (output_node (memory_node s3))
         \<and> r_chat_history (process_query e q sid sh) = chat_history (output_node (memory_node s3))"
    using inv hist err pq(1) pq(4) pq(6) flds by auto
  have keep: "error s \<noteq> [] \<longrightarrow> error (run_node e n s) \<noteq> []"
    by (simp add: run_node_keeps_error)
  from main keep show ?thesis
    unfolding Let_def s3_def b_def s0_def by (rule conjI)
qed


theorem stage_error_does_not_stop_pipeline_witness:
  "error (run_node failing_env
       (if query_type (decision_node (input_node (initial_graph_state ''hello there'' ''s1'' None)))
            = ''calculation'' then Tool_Node else Llm_Node)
       (decision_node (input_node (initial_graph_state ''hello there'' ''s1'' None)))) \<noteq> []
   \<and> success (process_query failing_env ''hello there'' ''s1'' None)
   \<and> r_error (process_query failing_env ''hello there'' ''s1'' None) \<noteq> []
   \<and> error ((initial_graph_state ''2+2'' ''s1'' None)\<lparr>error := ''Query is too short''\<rparr>) \<noteq> []
   \<and> error (run_node failing_env Tool_Node
         ((initial_graph_state ''2+2'' ''s1'' None)\<lparr>error := ''Query is too short''\<rparr>)) \<noteq> []"
proof -
  have h1: "error (run_node failing_env
       (if query_type (decision_node (input_node (initial_graph_state ''hello there'' ''s1'' None)))
            = ''calculation'' then Tool_Node else Llm_Node)
       (decision_node (input_node (initial_graph_state ''hello there'' ''s1'' None)))) \<noteq> []"
    by code_simp
  have h2: "error ((initial_graph_state ''2+2'' ''s1'' None)\<lparr>error := ''Query is too short''\<rparr>) \<noteq> []"
    by simp
  from h1 h2 stage_error_does_not_stop_pipeline [where e = failing_env and q = "''hello there''"
      and sid = "''s1''" and sh = None and n = Tool_Node
      and s = "(initial_graph_state ''2+2'' ''s1'' None)\<lparr>error := ''Query is too short''\<rparr>"]
  show ?thesis
    unfolding Let_def by metis
qed

text \<open>
  Claim C2, as stated, fails. The query of two blanks is rejected by the validator, yet the
  graph goes on: the query is classified, the language model is called and answers, and
  the recording stage appends both entries to the history.
\<close>

theorem validation_failure_short_circuit_counterexample:
  "\<not> fst (validate_query ''  '')
   \<and> invoke sample_env (initial_graph_state ''  '' ''s1'' None) =
       Inr ([Input_Node, Decision_Node, Llm_Node, Memory_Node, Output_Node],
            \<lparr>user_query = ''  '', query_type = ''text'',
             response = ''Hello! How can I help you?'', calculation_result = [],
             error = ''Query is too short'',
             chat_history =
               [\<lparr>msg_type = ''user'', content = ''  '', msg_query_type = Some ''text''\<rparr>,
                \<lparr>msg_type = ''assistant'', content = ''Hello! How can I help you?'',
                 msg_query_type = None\<rparr>],
             session_id = ''s1''\<rparr>)
   \<and> r_chat_history (process_query sample_env ''  '' ''s1'' None) \<noteq> []
   \<and> r_response (process_query sample_env ''  '' ''s1'' None) = ''Hello! How can I help you?''"
  by code_simp

text \<open>
  Claim C2, amended. For every query that fails validation, the entry stage stores the
  validation message in \<open>error\<close> and changes nothing else, and the execution does not
  stop there: classification, then generation or calculation, then recording and exit
  all run on the unmodified query, \<open>process_query\<close> returns \<open>success = True\<close> with a
  non-empty \<open>error\<close> and a non-empty \<open>response\<close>, and the history has gained the user
  entry (the unmodified query) and the assistant entry. The check that stops before any
  stage is the one of \<open>validate_and_sanitize_query\<close>, which raises on such a query.
\<close>

theorem validation_failure_runs_whole_pipeline:
  "\<not> fst (validate_query q) \<longrightarrow>
   (let s0 = initial_graph_state q sid sh;
        s1 = input_node s0;
        s2 = decision_node s1;
        b = (if query_type s2 = ''calculation'' then Tool_Node else Llm_Node);
        s3 = run_node e b s2;
        r = process_query e q sid sh
    in (\<exists>msg \<in> validation_messages. s1 = s0\<lparr>error := msg\<rparr>)
       \<and> invoke e s0 =
           Inr ([Input_Node, Decision_Node, b, Memory_Node, Output_Node],
                output_node (memory_node s3))
       \<and> user_query s3 = q
       \<and> success r \<and> r_error r \<noteq> [] \<and> r_response r \<noteq> []
       \<and> r_chat_history r =
           last_n 20 (chat_history s0 @
             [\<lparr>msg_type = ''user'', content = q, msg_query_type = Some (r_query_type r)\<rparr>,
              \<lparr>msg_type = ''assistant'', content = response s3, msg_query_type = None\<rparr>])
       \<and> (\<exists>msg. validate_and_sanitize_query q = Inl msg))"
proof
  assume bad: "\<not> fst (validate_query q)"
  define s0 where "s0 = initial_graph_state q sid sh"
  define b where "b = (if query_type (decision_node (input_node s0)) = ''calculation''
    then Tool_Node else Llm_Node)"
  define s3 where "s3 = run_node e b (decision_node (input_node s0))"
  have q: "user_query s0 = q"
    by (simp add: s0_def initial_graph_state_def)
  have b_eq: "b = (if is_calculation_query (user_query (input_node s0)) then Tool_Node else Llm_Node)"
    by (simp add: b_def decision_node_eq)
  have b_cases: "b = Tool_Node \<or> b = Llm_Node"
    by (simp add: b_def)
  have s3_eq: "s3 = run_node e (if is_calculation_query (user_query (input_node s0)) then Tool_Node else Llm_Node)
                    (decision_node (input_node s0))"
    by (simp add: s3_def b_eq)
  note pq = process_query_fields [OF s0_def s3_eq]
  from bad q obtain msg where msg: "msg \<in> validation_messages" "input_node s0 = s0\<lparr>error := msg\<rparr>"
    using input_node_invalid [of s0] by auto
  then have c1: "\<exists>msg \<in> validation_messages. input_node s0 = s0\<lparr>error := msg\<rparr>"
    by blast
  have uq1: "user_query (input_node s0) = q"
    by (simp add: msg(2) q)
  have c2: "invoke e s0 = Inr ([Input_Node, Decision_Node, b, Memory_Node, Output_Node],
      output_node (memory_node s3))"
    unfolding s3_def b_eq by (rule invoke_eq)
  have c3: "user_query s3 = q"
    unfolding s3_def by (simp add: run_node_branch_fields [OF b_cases] uq1)
  have "error (input_node s0) \<noteq> []"
    by (simp add: msg validation_messages_nonempty)
  then have "error s3 \<noteq> []"
    unfolding s3_def by (intro run_node_keeps_error) simp
  then have c4: "r_error (process_query e q sid sh) \<noteq> []"
    by (simp add: pq(6))
  have c5: "r_response (process_query e q sid sh) \<noteq> []"
    by (simp add: pq(2) output_node_response)
  have c6: "r_chat_history (process_query e q sid sh) =
      last_n 20 (chat_history s0 @
        [\<lparr>msg_type = ''user'', content = q,
           msg_query_type = Some (r_query_type (process_query e q sid sh))\<rparr>,
         \<lparr>msg_type = ''assistant'', content = response s3, msg_query_type = None\<rparr>])"
    by (simp add: pq(3) pq(4) uq1)
  obtain err where v: "validate_query q = (False, err)"
    using bad by (cases "validate_query q") simp
  then have c7: "\<exists>msg. validate_and_sanitize_query q = Inl msg"
    by (simp add: validate_and_sanitize_query_def)
  from c1 c2 c3 pq(1) c4 c5 c6 c7 show
    "let s0 = initial_graph_state q sid sh;
        s1 = input_node s0;
        s2 = decision_node s1;
        b = (if query_type s2 = ''calculation'' then Tool_Node else Llm_Node);
        s3 = run_node e b s2;
        r = process_query e q sid sh
    in (\<exists>msg \<in> validation_messages. s1 = s0\<lparr>error := msg\<rparr>)
       \<and> invoke e s0 =
           Inr ([Input_Node, Decision_Node, b, Memory_Node, Output_Node],
                output_node (memory_node s3))
       \<and> user_query s3 = q
       \<and> success r \<and> r_error r \<noteq> [] \<and> r_response r \<noteq> []
       \<and> r_chat_history r =
           last_n 20 (chat_history s0 @
             [\<lparr>msg_type = ''user'', content = q, msg_query_type = Some (r_query_type r)\<rparr>,
              \<lparr>msg_type = ''assistant'', content = response s3, msg_query_type = None\<rparr>])
       \<and> (\<exists>msg. validate_and_sanitize_query q = Inl msg)"
    unfolding Let_def s3_def b_def s0_def by (intro conjI)
qed

theorem validation_failure_runs_whole_pipeline_witness:
  "\<not> fst (validate_query ''  '')
   \<and> success (process_query sample_env ''  '' ''s1'' None)
   \<and> r_error (process_query sample_env ''  '' ''s1'' None) \<noteq> []
   \<and> r_response (process_query sample_env ''  '' ''s1'' None) \<noteq> []"
proof -
  have h: "\<not> fst (validate_query ''  '')"
    by code_simp
  from h validation_failure_runs_whole_pipeline [where e = sample_env and q = "''  ''"
      and sid = "''s1''" and sh = None]
  show ?thesis
    unfolding Let_def by metis
qed

text \<open>
  Claim C3. Whatever the query and whatever the collaborators do, the \<open>response\<close> that
  \<open>process_query\<close> returns is not empty; for a non-empty valid query of at most 5000
  characters it also returns \<open>success = True\<close>. The exit stage replaces an empty
  \<open>response\<close> by its fixed fallback text and leaves a state with a non-empty \<open>response\<close>
  as it is; the returned \<open>response\<close> is the one of the state that the exit stage yields.
\<close>

theorem process_query_response_never_empty:
  "r_response (process_query e q sid sh) \<noteq> []
   \<and> (q \<noteq> [] \<and> length q \<le> 5000 \<and> fst (validate_query q) \<longrightarrow>
        success (process_query e q sid sh) \<and> r_response (process_query e q sid sh) \<noteq> [])
   \<and> (response s = [] \<longrightarrow>
        response (output_node s) = ''I'm sorry, I couldn't generate a response.'')
   \<and> (response s \<noteq> [] \<longrightarrow> output_node s = s)
   \<and> r_response (process_query e q sid sh) =
       response (output_node (memory_node
         (run_node e
           (if query_type (decision_node (input_node (initial_graph_state q sid sh))) = ''calculation''
            then Tool_Node else Llm_Node)
           (decision_node (input_node (initial_graph_state q sid sh))))))"
proof -
  define s0 where "s0 = initial_graph_state q sid sh"
  define s3 where "s3 = run_node e (if is_calculation_query (user_query (input_node s0)) then Tool_Node else Llm_Node)
                    (decision_node (input_node s0))"
  note pq = process_query_fields [OF s0_def s3_def]
  have b_eq: "(if query_type (decision_node (input_node s0)) = ''calculation'' then Tool_Node else Llm_Node)
      = (if is_calculation_query (user_query (input_node s0)) then Tool_Node else Llm_Node)"
    by (simp add: decision_node_eq)
  have c1: "r_response (process_query e q sid sh) \<noteq> []"
    by (simp add: pq(2) output_node_response)
  have c5: "r_response (process_query e q sid sh) =
       response (output_node (memory_node
         (run_node e
           (if query_type (decision_node (input_node s0)) = ''calculation''
            then Tool_Node else Llm_Node)
           (decision_node (input_node s0)))))"
    unfolding b_eq pq(2) s3_def by (rule refl)
  have c3: "response s = [] \<longrightarrow>
        response (output_node s) = ''I'm sorry, I couldn't generate a response.''"
    by (simp add: output_node_def)
  have c4: "response s \<noteq> [] \<longrightarrow> output_node s = s"
    by (simp add: output_node_def)
  from c1 pq(1) c3 c4 c5 show ?thesis
    unfolding s0_def by blast
qed

theorem process_query_response_never_empty_witness:
  "''hello there'' \<noteq> [] \<and> length ''hello there'' \<le> 5000 \<and> fst (validate_query ''hello there'')
   \<and> success (process_query sample_env ''hello there'' ''s1'' None)
   \<and> r_response (process_query sample_env ''hello there'' ''s1'' None) \<noteq> []
   \<and> response (initial_graph_state ''hello there'' ''s1'' None) = []
   \<and> response (output_node (initial_graph_state ''hello there'' ''s1'' None))
       = ''I'm sorry, I couldn't generate a response.''
   \<and> response ((initial_graph_state ''hello there'' ''s1'' None)\<lparr>response := ''Hi''\<rparr>) \<noteq> []
   \<and> output_node ((initial_graph_state ''hello there'' ''s1'' None)\<lparr>response := ''Hi''\<rparr>)
       = (initial_graph_state ''hello there'' ''s1'' None)\<lparr>response := ''Hi''\<rparr>"
proof -
  have h1: "''hello there'' \<noteq> [] \<and> length ''hello there'' \<le> 5000 \<and> fst (validate_query ''hello there'')"
    by code_simp
  have h2: "response (initial_graph_state ''hello there'' ''s1'' None) = []"
    by (simp add: initial_graph_state_def)
  have h3: "response ((initial_graph_state ''hello there'' ''s1'' None)\<lparr>response := ''Hi''\<rparr>) \<noteq> []"
    by simp
  from h1 h2 h3
    process_query_response_never_empty [where e = sample_env and q = "''hello there''"
      and sid = "''s1''" and sh = None and s = "initial_graph_state ''hello there'' ''s1'' None"]
    process_query_response_never_empty [where e = sample_env and q = "''hello there''"
      and sid = "''s1''" and sh = None
      and s = "(initial_graph_state ''hello there'' ''s1'' None)\<lparr>response := ''Hi''\<rparr>"]
  show ?thesis
    by blast
qed

lemma input_node_user_query:
  "user_query (input_node s) =
     (if user_query s \<noteq> [] \<and> fst (validate_query (user_query s))
      then sanitize_query (user_query s) else user_query s)"
proof (cases "user_query s \<noteq> [] \<and> fst (validate_query (user_query s))")
  case True
  then show ?thesis by (simp add: input_node_valid)
next
  case False
  then obtain msg where "input_node s = s\<lparr>error := msg\<rparr>"
    using input_node_invalid [of s] by blast
  with False show ?thesis by auto
qed

lemma r_query_type_eq:
  "r_query_type (process_query e q sid sh) =
     (if is_calculation_query
           (if q \<noteq> [] \<and> fst (validate_query q) then sanitize_query q else q)
      then ''calculation'' else ''text'')"
proof -
  have q: "user_query (initial_graph_state q sid sh) = q"
    by (simp add: initial_graph_state_def)
  have "r_query_type (process_query e q sid sh) =
      (if is_calculation_query (user_query (input_node (initial_graph_state q sid sh)))
       then ''calculation'' else ''text'')"
    by (simp add: process_query_fields(3) [OF refl refl] decision_node_eq)
  then show ?thesis
    unfolding input_node_user_query q .
qed

lemma process_query_tool:
  assumes valid: "q \<noteq> []" "fst (validate_query q)"
    and calc: "is_calculation_query (sanitize_query q)"
  shows "numexpr_evaluate e (extract_math_expression (sanitize_query q)) = Inr v \<Longrightarrow>
           success (process_query e q sid sh)
           \<and> r_query_type (process_query e q sid sh) = ''calculation''
           \<and> r_calculation_result (process_query e q sid sh) = py_str v
           \<and> r_response (process_query e q sid sh) =
               ''The result of '' @ extract_math_expression (sanitize_query q) @ '' is '' @ py_str v
           \<and> r_error (process_query e q sid sh) = []"
    and "numexpr_evaluate e (extract_math_expression (sanitize_query q)) = Inl x \<Longrightarrow>
           success (process_query e q sid sh)
           \<and> r_query_type (process_query e q sid sh) = ''calculation''
           \<and> r_calculation_result (process_query e q sid sh) = []
           \<and> r_response (process_query e q sid sh) =
               ''I couldn't perform that calculation. Please provide a valid mathematical expression.''
           \<and> r_error (process_query e q sid sh) = ''Calculation error: '' @ x"
proof -
  define s0 where "s0 = initial_graph_state q sid sh"
  define s3 where "s3 = run_node e (if is_calculation_query (user_query (input_node s0)) then Tool_Node else Llm_Node)
                    (decision_node (input_node s0))"
  note pq = process_query_fields [OF s0_def s3_def]
  have q: "user_query s0 = q" "error s0 = []" "calculation_result s0 = []"
    by (simp_all add: s0_def initial_graph_state_def)
  have s1: "input_node s0 = s0\<lparr>user_query := sanitize_query q\<rparr>"
    using input_node_valid [of s0] valid q by simp
  have s3': "s3 = tool_node e (decision_node (s0\<lparr>user_query := sanitize_query q\<rparr>))"
    by (simp add: s3_def s1 calc)
  have qt: "r_query_type (process_query e q sid sh) = ''calculation''"
    by (simp add: r_query_type_eq valid calc)
  show "success (process_query e q sid sh)
           \<and> r_query_type (process_query e q sid sh) = ''calculation''
           \<and> r_calculation_result (process_query e q sid sh) = py_str v
           \<and> r_response (process_query e q sid sh) =
               ''The result of '' @ extract_math_expression (sanitize_query q) @ '' is '' @ py_str v
           \<and> r_error (process_query e q sid sh) = []"
    if "numexpr_evaluate e (extract_math_expression (sanitize_query q)) = Inr v"
    using that pq(1) qt
    by (simp add: pq(2) pq(5) pq(6) s3' tool_node_def output_node_def q)
  show "success (process_query e q sid sh)
           \<and> r_query_type (process_query e q sid sh) = ''calculation''
           \<and> r_calculation_result (process_query e q sid sh) = []
           \<and> r_response (process_query e q sid sh) =
               ''I couldn't perform that calculation. Please provide a valid mathematical expression.''
           \<and> r_error (process_query e q sid sh) = ''Calculation error: '' @ x"
    if "numexpr_evaluate e (extract_math_expression (sanitize_query q)) = Inl x"
    using that pq(1) qt
    by (simp add: pq(2) pq(5) pq(6) s3' tool_node_def output_node_def q)
qed

lemma sample_queries:
  "validate_query ''2+2'' = (True, None)" "sanitize_query ''2+2'' = ''2+2''"
  "validate_query ''calculate 10 * 4'' = (True, None)"
  "sanitize_query ''calculate 10 * 4'' = ''calculate 10 * 4''"
  "validate_query ''what is 9 / 3'' = (True, None)"
  "sanitize_query ''what is 9 / 3'' = ''what is 9 / 3''"
  "validate_query ''hello there'' = (True, None)"
  "sanitize_query ''hello there'' = ''hello there''"
  "validate_query ''tell me a joke'' = (True, None)"
  "sanitize_query ''tell me a joke'' = ''tell me a joke''"
  "validate_query ''what is 5 + 3?'' = (True, None)"
  "sanitize_query ''what is 5 + 3?'' = ''what is 5 + 3?''"
  "validate_query ''calculate banana'' = (True, None)"
  "sanitize_query ''calculate banana'' = ''calculate banana''"
  by code_simp+

lemma sample_classification:
  "is_calculation_query ''2+2''"
  "is_calculation_query ''calculate 10 * 4''"
  "is_calculation_query ''what is 9 / 3''"
  "\<not> is_calculation_query ''hello there''"
  "\<not> is_calculation_query ''tell me a joke''"
  "is_calculation_query ''what is 5 + 3?''"
  "is_calculation_query ''calculate banana''"
  by code_simp+

lemma sample_expressions:
  "extract_math_expression ''what is 5 + 3?'' = ''5 + 3''"
  "extract_math_expression ''calculate banana'' = ''banana''"
  "str_int 8 = ''8''"
  by code_simp+

text \<open>
  Claim C4. The classification stage writes \<open>query_type\<close> and nothing else, the value it
  writes is \<open>text\<close> or \<open>calculation\<close>, and it depends on the query alone: two states with
  the same query get the same type, and the type that \<open>process_query\<close> returns is the
  same whatever the collaborators, the session and the history are. The queries
  \<open>2+2\<close>, \<open>calculate 10 * 4\<close> and \<open>what is 9 / 3\<close> are calculations; \<open>hello there\<close> and
  \<open>tell me a joke\<close> are text.
\<close>

theorem classification_deterministic_total:
  "(query_type (decision_node s) = ''text'' \<or> query_type (decision_node s) = ''calculation'')
   \<and> decision_node s =
       s\<lparr>query_type := (if is_calculation_query (user_query s) then ''calculation'' else ''text'')\<rparr>
   \<and> (user_query s = user_query s' \<longrightarrow>
        query_type (decision_node s) = query_type (decision_node s'))
   \<and> (r_query_type (process_query e q sid sh) = ''text''
        \<or> r_query_type (process_query e q sid sh) = ''calculation'')
   \<and> r_query_type (process_query e q sid sh) = r_query_type (process_query e' q sid' sh')
   \<and> is_calculation_query ''2+2''
   \<and> is_calculation_query ''calculate 10 * 4''
   \<and> is_calculation_query ''what is 9 / 3''
   \<and> \<not> is_calculation_query ''hello there''
   \<and> \<not> is_calculation_query ''tell me a joke''
   \<and> r_query_type (process_query e ''2+2'' sid sh) = ''calculation''
   \<and> r_query_type (process_query e ''calculate 10 * 4'' sid sh) = ''calculation''
   \<and> r_query_type (process_query e ''what is 9 / 3'' sid sh) = ''calculation''
   \<and> r_query_type (process_query e ''hello there'' sid sh) = ''text''
   \<and> r_query_type (process_query e ''tell me a joke'' sid sh) = ''text''"
proof -
  have a: "query_type (decision_node s) = ''text'' \<or> query_type (decision_node s) = ''calculation''"
    by (simp add: decision_node_eq)
  have b: "decision_node s =
       s\<lparr>query_type := (if is_calculation_query (user_query s) then ''calculation'' else ''text'')\<rparr>"
    by (rule decision_node_eq)
  have c: "user_query s = user_query s' \<longrightarrow>
        query_type (decision_node s) = query_type (decision_node s')"
    by (simp add: decision_node_eq)
  have d: "r_query_type (process_query e q sid sh) = ''text''
        \<or> r_query_type (process_query e q sid sh) = ''calculation''"
    unfolding r_query_type_eq by simp
  have f: "r_query_type (process_query e q sid sh) = r_query_type (process_query e' q sid' sh')"
    unfolding r_query_type_eq by (rule refl)
  have g: "r_query_type (process_query e ''2+2'' sid sh) = ''calculation''"
    "r_query_type (process_query e ''calculate 10 * 4'' sid sh) = ''calculation''"
    "r_query_type (process_query e ''what is 9 / 3'' sid sh) = ''calculation''"
    "r_query_type (process_query e ''hello there'' sid sh) = ''text''"
    "r_query_type (process_query e ''tell me a joke'' sid sh) = ''text''"
    unfolding r_query_type_eq by (simp_all add: sample_queries sample_classification)
  from a b c d f g sample_classification(1-5) show ?thesis
    by (intro conjI)
qed

theorem classification_deterministic_total_witness:
  "user_query (initial_graph_state ''2+2'' ''s1'' None)
     = user_query ((initial_graph_state ''2+2'' ''s2'' None)\<lparr>error := ''x''\<rparr>)
   \<and> query_type (decision_node (initial_graph_state ''2+2'' ''s1'' None))
     = query_type (decision_node ((initial_graph_state ''2+2'' ''s2'' None)\<lparr>error := ''x''\<rparr>))"
proof -
  have h: "user_query (initial_graph_state ''2+2'' ''s1'' None)
     = user_query ((initial_graph_state ''2+2'' ''s2'' None)\<lparr>error := ''x''\<rparr>)"
    by (simp add: initial_graph_state_def)
  from h classification_deterministic_total [where s = "initial_graph_state ''2+2'' ''s1'' None"
      and s' = "(initial_graph_state ''2+2'' ''s2'' None)\<lparr>error := ''x''\<rparr>"]
  show ?thesis by blast
qed

text \<open>
  Claim C5. Removing the filler words from \<open>what is 5 + 3?\<close> leaves the expression
  \<open>5 + 3\<close>. When the evaluator returns the integer 8 for that expression,
  \<open>process_query\<close> returns \<open>calculation_result\<close> \<open>8\<close> and a response that contains \<open>8\<close>.
  Whenever the removal leaves nothing after trimming, the expression is the whole query
  and the calculation stage evaluates the whole query.
\<close>

theorem what_is_5_plus_3:
  "extract_math_expression ''what is 5 + 3?'' = ''5 + 3''
   \<and> (numexpr_evaluate e ''5 + 3'' = Inr (PyInt 8) \<longrightarrow>
        success (process_query e ''what is 5 + 3?'' sid sh)
        \<and> r_query_type (process_query e ''what is 5 + 3?'' sid sh) = ''calculation''
        \<and> r_calculation_result (process_query e ''what is 5 + 3?'' sid sh) = ''8''
        \<and> r_response (process_query e ''what is 5 + 3?'' sid sh) = ''The result of 5 + 3 is 8''
        \<and> CHR ''8'' \<in> set (r_response (process_query e ''what is 5 + 3?'' sid sh))
        \<and> r_error (process_query e ''what is 5 + 3?'' sid sh) = [])
   \<and> (py_strip (remove_filler_words (user_query s)) = [] \<longrightarrow>
        extract_math_expression (user_query s) = user_query s
        \<and> tool_node e s =
            (case numexpr_evaluate e (user_query s) of
               Inr result \<Rightarrow>
                 s\<lparr>calculation_result := py_str result,
                   response := ''The result of '' @ user_query s @ '' is '' @ py_str result\<rparr>
             | Inl exn \<Rightarrow>
                 s\<lparr>error := ''Calculation error: '' @ exn,
                   response := ''I couldn't perform that calculation. Please provide a valid mathematical expression.''\<rparr>))"
proof (intro conjI impI)
  show "extract_math_expression ''what is 5 + 3?'' = ''5 + 3''"
    by (rule sample_expressions)
next
  assume ev: "numexpr_evaluate e ''5 + 3'' = Inr (PyInt 8)"
  have valid: "''what is 5 + 3?'' \<noteq> []" "fst (validate_query ''what is 5 + 3?'')"
    by (simp_all add: sample_queries)
  have calc: "is_calculation_query (sanitize_query ''what is 5 + 3?'')"
    by (simp add: sample_queries sample_classification)
  have ev': "numexpr_evaluate e (extract_math_expression (sanitize_query ''what is 5 + 3?''))
      = Inr (PyInt 8)"
    by (simp only: sample_queries sample_expressions ev)
  note r = process_query_tool(1) [OF valid calc ev', of sid sh,
      unfolded sample_queries sample_expressions py_str.simps]
  from r show "success (process_query e ''what is 5 + 3?'' sid sh)" by blast
  from r show "r_query_type (process_query e ''what is 5 + 3?'' sid sh) = ''calculation''" by blast
  from r show "r_calculation_result (process_query e ''what is 5 + 3?'' sid sh) = ''8''" by blast
  from r show resp: "r_response (process_query e ''what is 5 + 3?'' sid sh) = ''The result of 5 + 3 is 8''"
    by simp
  show "CHR ''8'' \<in> set (r_response (process_query e ''what is 5 + 3?'' sid sh))"
    unfolding resp by simp
  from r show "r_error (process_query e ''what is 5 + 3?'' sid sh) = []" by blast
next
  assume "py_strip (remove_filler_words (user_query s)) = []"
  then show expr: "extract_math_expression (user_query s) = user_query s"
    by (simp add: extract_math_expression_def)
  show "tool_node e s =
            (case numexpr_evaluate e (user_query s) of
               Inr result \<Rightarrow>
                 s\<lparr>calculation_result := py_str result,
                   response := ''The result of '' @ user_query s @ '' is '' @ py_str result\<rparr>
             | Inl exn \<Rightarrow>
                 s\<lparr>error := ''Calculation error: '' @ exn,
                   response := ''I couldn't perform that calculation. Please provide a valid mathematical expression.''\<rparr>)"
    by (simp add: tool_node_def expr Let_def split: sum.splits)
qed

theorem what_is_5_plus_3_witness:
  "numexpr_evaluate sample_env ''5 + 3'' = Inr (PyInt 8)
   \<and> r_calculation_result (process_query sample_env ''what is 5 + 3?'' ''s1'' None) = ''8''
   \<and> r_response (process_query sample_env ''what is 5 + 3?'' ''s1'' None)
       = ''The result of 5 + 3 is 8''
   \<and> py_strip (remove_filler_words (user_query (initial_graph_state ''calculate'' ''s1'' None))) = []
   \<and> extract_math_expression (user_query (initial_graph_state ''calculate'' ''s1'' None))
       = user_query (initial_graph_state ''calculate'' ''s1'' None)"
proof -
  have h1: "numexpr_evaluate sample_env ''5 + 3'' = Inr (PyInt 8)"
    by code_simp
  have h2: "py_strip (remove_filler_words (user_query (initial_graph_state ''calculate'' ''s1'' None))) = []"
    by code_simp
  from h1 h2 what_is_5_plus_3 [where e = sample_env and sid = "''s1''" and sh = None
      and s = "initial_graph_state ''calculate'' ''s1'' None"]
  show ?thesis by blast
qed

text \<open>
  Claim C6. The query \<open>calculate banana\<close> is a calculation whose expression is \<open>banana\<close>.
  When the evaluator raises on it, \<open>process_query\<close> still returns \<open>success = True\<close>, with
  a non-empty \<open>error\<close>, the fixed apology as \<open>response\<close> and an empty
  \<open>calculation_result\<close>.
\<close>

theorem calculate_banana_recoverable:
  "numexpr_evaluate e ''banana'' = Inl x \<longrightarrow>
     extract_math_expression ''calculate banana'' = ''banana''
     \<and> success (process_query e ''calculate banana'' sid sh)
     \<and> r_query_type (process_query e ''calculate banana'' sid sh) = ''calculation''
     \<and> r_error (process_query e ''calculate banana'' sid sh) = ''Calculation error: '' @ x
     \<and> r_error (process_query e ''calculate banana'' sid sh) \<noteq> []
     \<and> r_response (process_query e ''calculate banana'' sid sh) =
         ''I couldn't perform that calculation. Please provide a valid mathematical expression.''
     \<and> r_calculation_result (process_query e ''calculate banana'' sid sh) = []"
proof
  assume ev: "numexpr_evaluate e ''banana'' = Inl x"
  have valid: "''calculate banana'' \<noteq> []" "fst (validate_query ''calculate banana'')"
    by (simp_all add: sample_queries)
  have calc: "is_calculation_query (sanitize_query ''calculate banana'')"
    by (simp add: sample_queries sample_classification)
  have ev': "numexpr_evaluate e (extract_math_expression (sanitize_query ''calculate banana''))
      = Inl x"
    by (simp only: sample_queries sample_expressions ev)
  note r = process_query_tool(2) [OF valid calc ev', of sid sh]
  have ne: "r_error (process_query e ''calculate banana'' sid sh) \<noteq> []"
    using r by simp
  from r ne sample_expressions(2) show
    "extract_math_expression ''calculate banana'' = ''banana''
     \<and> success (process_query e ''calculate banana'' sid sh)
     \<and> r_query_type (process_query e ''calculate banana'' sid sh) = ''calculation''
     \<and> r_error (process_query e ''calculate banana'' sid sh) = ''Calculation error: '' @ x
     \<and> r_error (process_query e ''calculate banana'' sid sh) \<noteq> []
     \<and> r_response (process_query e ''calculate banana'' sid sh) =
         ''I couldn't perform that calculation. Please provide a valid mathematical expression.''
     \<and> r_calculation_result (process_query e ''calculate banana'' sid sh) = []"
    by blast
qed

theorem calculate_banana_recoverable_witness:
  "numexpr_evaluate sample_env ''banana'' = Inl ''cannot evaluate banana''
   \<and> success (process_query sample_env ''calculate banana'' ''s1'' None)
   \<and> r_error (process_query sample_env ''calculate banana'' ''s1'' None)
       = ''Calculation error: '' @ ''cannot evaluate banana''
   \<and> r_calculation_result (process_query sample_env ''calculate banana'' ''s1'' None) = []"
proof -
  have h: "numexpr_evaluate sample_env ''banana'' = Inl ''cannot evaluate banana''"
    by code_simp
  from h calculate_banana_recoverable [where e = sample_env and sid = "''s1''" and sh = None
      and x = "''cannot evaluate banana''"]
  show ?thesis by blast
qed

lemma last_n_rev: "last_n n xs = rev (take n (rev xs))"
  by (simp add: last_n_def rev_take)



lemma last_n_append_exact: "length ys = n \<Longrightarrow> last_n n (xs @ ys) = ys"
  by (simp add: last_n_rev)






























end
